theory Spec2Isabelle
  imports Complex_Main "HOL-Library.Multiset"
begin

section \<open>Fourier coefficients of the piston acceleration (scripts/fourier\_piston.py)\<close>

text \<open>
  The script computes the real Fourier coefficients of a periodic piecewise-constant
  function by closed-form integration over each constant piece, and evaluates the
  truncated series.

  Conventions of the embedding:
  \<^item> a Python \<open>float\<close> is read as a \<open>real\<close>: arithmetic is exact, there is no rounding,
    no overflow and no infinity; \<open>math.sin\<close>, \<open>math.cos\<close> and \<open>math.pi\<close> are
    \<open>sin\<close>, \<open>cos\<close> and \<open>pi\<close>;
  \<^item> a Python \<open>int\<close> is an \<open>int\<close>, converted by \<open>real_of_int\<close> where it meets a float;
  \<^item> an exception is the left summand of the result type; float division and float
    modulo by zero raise \<open>ZeroDivisionError\<close> in Python and do so here;
  \<^item> the module globals \<open>T\<close> and \<open>SEGMENTS\<close> are read by every function of the
    script; each function of the model takes them as its first arguments \<open>T\<close> and
    \<open>segs\<close>, and the values the script binds them to are the constants
    \<open>T_module\<close> and \<open>SEGMENTS\<close>.
\<close>

subsection \<open>Data\<close>

datatype py_error = ZeroDivisionError | TypeError | ValueError string

text \<open>A segment is the tuple \<open>(start, end, value)\<close>.\<close>

type_synonym segment = "real \<times> real \<times> real"

text \<open>The tag of an integral: \<open>('cos', n)\<close>, \<open>('sin', n)\<close> or \<open>('const', None)\<close>.\<close>

type_synonym func_tag = "string \<times> int option"

definition T_module :: real where
  "T_module = 60"

definition SEGMENTS :: "segment list" where
  "SEGMENTS = [(0, 10, 3), (10, 30, 0), (30, 40, 1), (40, 60, 0)]"

subsection \<open>Float operators that can raise\<close>

text \<open>\<open>x / y\<close> on floats.\<close>

definition fdiv :: "real \<Rightarrow> real \<Rightarrow> py_error + real" where
  "fdiv x y = (if y = 0 then Inl ZeroDivisionError else Inr (x / y))"

text \<open>
  \<open>x % y\<close> on floats: the remainder takes the sign of the divisor, that is
  \<open>x - y * floor (x / y)\<close>.
\<close>

definition fmod :: "real \<Rightarrow> real \<Rightarrow> py_error + real" where
  "fmod x y = (if y = 0 then Inl ZeroDivisionError else Inr (x - y * of_int \<lfloor>x / y\<rfloor>))"

subsection \<open>piecewise\_integral\<close>

text \<open>
  \<^verbatim>\<open>
  def piecewise_integral(value, t0, t1, func):
      kind, n = func
      if kind == 'const':
          return value * (t1 - t0)
      w = 2.0 * math.pi * n / T
      if kind == 'cos':
          return value * (math.sin(w * t1) - math.sin(w * t0)) / w
      if kind == 'sin':
          return -value * (math.cos(w * t1) - math.cos(w * t0)) / w
      raise ValueError(f"Unknown func kind: {kind}")
  \<close>
  With \<open>n = None\<close> the product \<open>2.0 * math.pi * n\<close> raises \<open>TypeError\<close>.
\<close>

definition piecewise_integral ::
  "real \<Rightarrow> real \<Rightarrow> real \<Rightarrow> real \<Rightarrow> func_tag \<Rightarrow> py_error + real" where
  "piecewise_integral T val t0 t1 func =
     (case func of (kind, n) \<Rightarrow>
        if kind = ''const'' then Inr (val * (t1 - t0))
        else (case n of
            None \<Rightarrow> Inl TypeError
          | Some m \<Rightarrow>
              (case fdiv (2 * pi * real_of_int m) T of
                 Inl e \<Rightarrow> Inl e
               | Inr w \<Rightarrow>
                   if kind = ''cos'' then fdiv (val * (sin (w * t1) - sin (w * t0))) w
                   else if kind = ''sin'' then fdiv (- val * (cos (w * t1) - cos (w * t0))) w
                   else Inl (ValueError (''Unknown func kind: '' @ kind)))))"

subsection \<open>compute\_a0\<close>

text \<open>
  \<^verbatim>\<open>
  def compute_a0():
      total = 0.0
      for (t0, t1, v) in SEGMENTS:
          total += piecewise_integral(v, t0, t1, ('const', None))
      return (2.0 / T) * total
  \<close>
  The accumulator \<open>total\<close> is \<open>total_v\<close> here.
\<close>

fun a0_loop :: "real \<Rightarrow> segment list \<Rightarrow> real \<Rightarrow> py_error + real" where
  "a0_loop T [] total_v = Inr total_v"
| "a0_loop T ((t0, t1, v) # segs) total_v =
     (case piecewise_integral T v t0 t1 (''const'', None) of
        Inl e \<Rightarrow> Inl e
      | Inr p \<Rightarrow> a0_loop T segs (total_v + p))"

definition compute_a0 :: "real \<Rightarrow> segment list \<Rightarrow> py_error + real" where
  "compute_a0 T segs =
     (case a0_loop T segs 0 of
        Inl e \<Rightarrow> Inl e
      | Inr total_v \<Rightarrow>
          (case fdiv 2 T of
             Inl e \<Rightarrow> Inl e
           | Inr c \<Rightarrow> Inr (c * total_v)))"

subsection \<open>compute\_an\_bn\<close>

text \<open>
  \<^verbatim>\<open>
  def compute_an_bn(N):
      a_list = []
      b_list = []
      for n in range(1, N + 1):
          a_n = 0.0
          b_n = 0.0
          for (t0, t1, v) in SEGMENTS:
              a_n += piecewise_integral(v, t0, t1, ('cos', n))
              b_n += piecewise_integral(v, t0, t1, ('sin', n))
          a_n *= (2.0 / T)
          b_n *= (2.0 / T)
          a_list.append(a_n)
          b_list.append(b_n)
      return a_list, b_list
  \<close>
  The inner loop threads the pair \<open>(a_n, b_n)\<close>, the outer loop the pair of lists;
  \<open>range(1, N + 1)\<close> is the list \<open>[1..N]\<close>, empty when \<open>N < 1\<close>.
\<close>

fun an_bn_inner :: "real \<Rightarrow> int \<Rightarrow> segment list \<Rightarrow> real \<times> real \<Rightarrow> py_error + real \<times> real" where
  "an_bn_inner T n [] acc = Inr acc"
| "an_bn_inner T n ((t0, t1, v) # segs) (a_n, b_n) =
     (case piecewise_integral T v t0 t1 (''cos'', Some n) of
        Inl e \<Rightarrow> Inl e
      | Inr p \<Rightarrow>
          (case piecewise_integral T v t0 t1 (''sin'', Some n) of
             Inl e \<Rightarrow> Inl e
           | Inr q \<Rightarrow> an_bn_inner T n segs (a_n + p, b_n + q)))"

fun an_bn_outer ::
  "real \<Rightarrow> segment list \<Rightarrow> int list \<Rightarrow> real list \<times> real list \<Rightarrow> py_error + real list \<times> real list" where
  "an_bn_outer T segs [] acc = Inr acc"
| "an_bn_outer T segs (n # ns) (a_list, b_list) =
     (case an_bn_inner T n segs (0, 0) of
        Inl e \<Rightarrow> Inl e
      | Inr (a_n, b_n) \<Rightarrow>
          (case fdiv 2 T of
             Inl e \<Rightarrow> Inl e
           | Inr c \<Rightarrow>
               (case fdiv 2 T of
                  Inl e \<Rightarrow> Inl e
                | Inr d \<Rightarrow> an_bn_outer T segs ns (a_list @ [a_n * c], b_list @ [b_n * d]))))"

definition compute_an_bn :: "real \<Rightarrow> segment list \<Rightarrow> int \<Rightarrow> py_error + real list \<times> real list" where
  "compute_an_bn T segs N = an_bn_outer T segs [1..N] ([], [])"

subsection \<open>reconstruct\<close>

text \<open>
  \<^verbatim>\<open>
  def reconstruct(t, a0, a_list, b_list):
      t = t % T
      s = a0 / 2.0
      for n, (a_n, b_n) in enumerate(zip(a_list, b_list), start=1):
          w = 2.0 * math.pi * n / T
          s += a_n * math.cos(w * t) + b_n * math.sin(w * t)
      return s
  \<close>
  \<open>zip\<close> stops at the shorter list; \<open>enumerate(..., start=1)\<close> counts from 1.
\<close>

fun reconstruct_loop :: "real \<Rightarrow> real \<Rightarrow> int \<Rightarrow> (real \<times> real) list \<Rightarrow> real \<Rightarrow> py_error + real" where
  "reconstruct_loop T t n [] s = Inr s"
| "reconstruct_loop T t n ((a_n, b_n) # rest) s =
     (case fdiv (2 * pi * real_of_int n) T of
        Inl e \<Rightarrow> Inl e
      | Inr w \<Rightarrow> reconstruct_loop T t (n + 1) rest (s + (a_n * cos (w * t) + b_n * sin (w * t))))"

definition reconstruct :: "real \<Rightarrow> real \<Rightarrow> real \<Rightarrow> real list \<Rightarrow> real list \<Rightarrow> py_error + real" where
  "reconstruct T t a0 a_list b_list =
     (case fmod t T of
        Inl e \<Rightarrow> Inl e
      | Inr t' \<Rightarrow> reconstruct_loop T t' 1 (zip a_list b_list) (a0 / 2))"

subsection \<open>The closed forms of the specification\<close>

text \<open>
  The specification gives the coefficients as sums over the segments in list order,
  with \<open>w_n = 2 \<pi> n / T\<close>:
  \<open>a0 = (2/T) \<Sum> value (end - start)\<close>,
  \<open>a_n = (2/T) \<Sum> value (sin (w_n end) - sin (w_n start)) / w_n\<close>,
  \<open>b_n = (2/T) \<Sum> - value (cos (w_n end) - cos (w_n start)) / w_n\<close>.
  These definitions follow the specification's words; the theorems below compare them
  with the loops of the script.
\<close>

definition spec_w_n :: "real \<Rightarrow> int \<Rightarrow> real" where
  "spec_w_n T n = 2 * pi * real_of_int n / T"

definition spec_a0 :: "real \<Rightarrow> segment list \<Rightarrow> real" where
  "spec_a0 T segs = (2 / T) * (\<Sum>(t0, t1, v)\<leftarrow>segs. v * (t1 - t0))"

definition spec_a_n :: "real \<Rightarrow> segment list \<Rightarrow> int \<Rightarrow> real" where
  "spec_a_n T segs n =
     (2 / T) * (\<Sum>(t0, t1, v)\<leftarrow>segs. v * (sin (spec_w_n T n * t1) - sin (spec_w_n T n * t0)) / spec_w_n T n)"

definition spec_b_n :: "real \<Rightarrow> segment list \<Rightarrow> int \<Rightarrow> real" where
  "spec_b_n T segs n =
     (2 / T) * (\<Sum>(t0, t1, v)\<leftarrow>segs. - v * (cos (spec_w_n T n * t1) - cos (spec_w_n T n * t0)) / spec_w_n T n)"

subsection \<open>Tilings, constant functions and sums of functions\<close>





section \<open>The loops compute the closed forms\<close>

lemma piecewise_integral_const:
  "piecewise_integral T v t0 t1 (''const'', n) = Inr (v * (t1 - t0))"
  by (simp add: piecewise_integral_def)

lemma a0_loop_sum:
  "a0_loop T segs acc = Inr (acc + (\<Sum>(t0, t1, v)\<leftarrow>segs. v * (t1 - t0)))"
  by (induction segs arbitrary: acc) (auto simp: piecewise_integral_const)

lemma compute_a0_closed: "T \<noteq> 0 \<Longrightarrow> compute_a0 T segs = Inr (spec_a0 T segs)"
  by (simp add: compute_a0_def a0_loop_sum fdiv_def spec_a0_def)

lemma compute_a0_zero_period: "compute_a0 0 segs = Inl ZeroDivisionError"
  by (simp add: compute_a0_def a0_loop_sum fdiv_def)

lemma spec_w_n_nonzero: "T \<noteq> 0 \<Longrightarrow> n \<noteq> 0 \<Longrightarrow> spec_w_n T n \<noteq> 0"
  by (simp add: spec_w_n_def)

lemma piecewise_integral_cos:
  "T \<noteq> 0 \<Longrightarrow> n \<noteq> 0 \<Longrightarrow>
   piecewise_integral T v t0 t1 (''cos'', Some n) =
     Inr (v * (sin (spec_w_n T n * t1) - sin (spec_w_n T n * t0)) / spec_w_n T n)"
  by (simp add: piecewise_integral_def fdiv_def spec_w_n_def)

lemma piecewise_integral_sin:
  "T \<noteq> 0 \<Longrightarrow> n \<noteq> 0 \<Longrightarrow>
   piecewise_integral T v t0 t1 (''sin'', Some n) =
     Inr (- v * (cos (spec_w_n T n * t1) - cos (spec_w_n T n * t0)) / spec_w_n T n)"
  by (simp add: piecewise_integral_def fdiv_def spec_w_n_def)

lemma an_bn_inner_sum:
  "T \<noteq> 0 \<Longrightarrow> n \<noteq> 0 \<Longrightarrow>
   an_bn_inner T n segs (a, b) =
     Inr (a + (\<Sum>(t0, t1, v)\<leftarrow>segs. v * (sin (spec_w_n T n * t1) - sin (spec_w_n T n * t0)) / spec_w_n T n),
          b + (\<Sum>(t0, t1, v)\<leftarrow>segs. - v * (cos (spec_w_n T n * t1) - cos (spec_w_n T n * t0)) / spec_w_n T n))"
proof (induction segs arbitrary: a b)
  case Nil
  then show ?case by simp
next
  case (Cons seg segs)
  obtain t0 t1 v where seg: "seg = (t0, t1, v)" by (cases seg)
  show ?case
    unfolding seg
    by (simp only: an_bn_inner.simps piecewise_integral_cos [OF Cons.prems]
        piecewise_integral_sin [OF Cons.prems] sum.case Cons.IH [OF Cons.prems]
        list.map sum_list.Cons prod.case add.assoc)
qed

lemma an_bn_outer_closed:
  "T \<noteq> 0 \<Longrightarrow> 0 \<notin> set ns \<Longrightarrow>
   an_bn_outer T segs ns (a_list, b_list) =
     Inr (a_list @ map (spec_a_n T segs) ns, b_list @ map (spec_b_n T segs) ns)"
proof (induction ns arbitrary: a_list b_list)
  case Nil
  then show ?case by simp
next
  case (Cons n ns)
  from Cons.prems have n: "n \<noteq> 0" and ns: "0 \<notin> set ns" by auto
  show ?case
    using Cons.prems(1)
    by (simp add: an_bn_inner_sum [OF Cons.prems(1) n] fdiv_def
        Cons.IH [OF Cons.prems(1) ns] spec_a_n_def spec_b_n_def)
qed

lemma compute_an_bn_closed:
  "T \<noteq> 0 \<Longrightarrow>
   compute_an_bn T segs N = Inr (map (spec_a_n T segs) [1..N], map (spec_b_n T segs) [1..N])"
  using an_bn_outer_closed [of T "[1..N]" segs "[]" "[]"]
  by (simp add: compute_an_bn_def)

section \<open>A period of zero, and no harmonics\<close>

lemma an_bn_inner_zero_period:
  "an_bn_inner 0 n segs acc = (if segs = [] then Inr acc else Inl ZeroDivisionError)"
proof (cases segs)
  case Nil
  then show ?thesis by simp
next
  case (Cons seg rest)
  obtain t0 t1 v where "seg = (t0, t1, v)" by (cases seg)
  moreover obtain a b where "acc = (a, b)" by (cases acc)
  ultimately show ?thesis
    using Cons by (simp add: piecewise_integral_def fdiv_def)
qed

lemma an_bn_outer_zero_period:
  "an_bn_outer 0 segs (n # ns) acc = Inl ZeroDivisionError"
proof -
  obtain al bl where "acc = (al, bl)" by (cases acc)
  then show ?thesis
    by (simp add: an_bn_inner_zero_period fdiv_def)
qed

lemma compute_an_bn_zero_period:
  "1 \<le> N \<Longrightarrow> compute_an_bn 0 segs N = Inl ZeroDivisionError"
proof -
  assume "1 \<le> N"
  then have "[1..N] = 1 # [1 + 1..N]" by (rule upto_rec1)
  then show ?thesis
    by (simp only: compute_an_bn_def an_bn_outer_zero_period)
qed

lemma compute_an_bn_no_harmonics:
  "N < 1 \<Longrightarrow> compute_an_bn T segs N = Inr ([], [])"
  by (simp add: compute_an_bn_def)

section \<open>The float remainder\<close>




section \<open>Sums over a tiling of one period\<close>













section \<open>Sums over the sum of two functions\<close>






section \<open>The coefficients\<close>

text \<open>
  C1. For a period \<open>T > 0\<close> and every order \<open>N\<close>, \<open>compute_an_bn\<close> returns, for the
  harmonics \<open>n = 1, \<dots>, N\<close> in this order, the closed-form sums of the specification:
  \<open>a_n = (2/T) \<Sum> value (sin (w_n end) - sin (w_n start)) / w_n\<close> and
  \<open>b_n = (2/T) \<Sum> - value (cos (w_n end) - cos (w_n start)) / w_n\<close> with
  \<open>w_n = 2 \<pi> n / T\<close>, the sums running over the segments in list order.
\<close>

theorem compute_an_bn_closed_form:
  "0 < T \<Longrightarrow>
   compute_an_bn T segs N = Inr (map (spec_a_n T segs) [1..N], map (spec_b_n T segs) [1..N])"
  by (simp add: compute_an_bn_closed)

theorem compute_an_bn_closed_form_witness:
  "0 < T_module \<and>
   compute_an_bn T_module SEGMENTS 2 =
     Inr (map (spec_a_n T_module SEGMENTS) [1..2], map (spec_b_n T_module SEGMENTS) [1..2])"
proof -
  have h: "0 < T_module" by (simp add: T_module_def)
  from compute_an_bn_closed_form [OF h, of SEGMENTS 2] h show ?thesis by blast
qed

text \<open>
  C2. For a period \<open>T > 0\<close>, \<open>compute_a0\<close> returns \<open>(2/T) \<Sum> value (end - start)\<close>; for the
  script's own period 60 and segments \<open>(0,10,3), (10,30,0), (30,40,1), (40,60,0)\<close> it
  returns \<open>4/3\<close>, and the DC term, half of it, is \<open>2/3\<close>.
\<close>

theorem compute_a0_value:
  "(0 < T \<longrightarrow> compute_a0 T segs = Inr (spec_a0 T segs)) \<and>
   (\<exists>a0. compute_a0 60 [(0, 10, 3), (10, 30, 0), (30, 40, 1), (40, 60, 0)] = Inr a0 \<and>
      a0 = 4 / 3 \<and> a0 / 2 = 2 / 3)"
proof (intro conjI impI)
  assume "0 < T"
  then show "compute_a0 T segs = Inr (spec_a0 T segs)"
    by (simp add: compute_a0_closed)
next
  have "compute_a0 60 [(0, 10, 3), (10, 30, 0), (30, 40, 1), (40, 60, 0)] = Inr (4 / 3)"
    by (simp add: compute_a0_closed spec_a0_def)
  then show "\<exists>a0. compute_a0 60 [(0, 10, 3), (10, 30, 0), (30, 40, 1), (40, 60, 0)] = Inr a0 \<and>
      a0 = 4 / 3 \<and> a0 / 2 = 2 / 3"
    by (intro exI [of _ "4 / 3"]) simp
qed

theorem compute_a0_value_witness:
  "0 < T_module \<and> compute_a0 T_module SEGMENTS = Inr (spec_a0 T_module SEGMENTS)"
proof -
  have h: "0 < T_module" by (simp add: T_module_def)
  from compute_a0_value [of T_module SEGMENTS] h show ?thesis by blast
qed

text \<open>
  C6. For \<open>N = 0\<close> (and a period \<open>T > 0\<close>) \<open>compute_an_bn\<close> returns two empty lists,
  and \<open>reconstruct\<close> on two empty lists returns the DC term \<open>a0 / 2\<close> at every \<open>t\<close>.
\<close>

theorem no_harmonics_dc_only:
  "0 < T \<Longrightarrow>
   compute_an_bn T segs 0 = Inr ([], []) \<and> (\<forall>t a0. reconstruct T t a0 [] [] = Inr (a0 / 2))"
  by (simp add: compute_an_bn_def reconstruct_def fmod_def)

theorem no_harmonics_dc_only_witness:
  "0 < T_module \<and> compute_an_bn T_module SEGMENTS 0 = Inr ([], []) \<and>
   (\<forall>t a0. reconstruct T_module t a0 [] [] = Inr (a0 / 2))"
proof -
  have h: "0 < T_module" by (simp add: T_module_def)
  from no_harmonics_dc_only [OF h, of SEGMENTS] h show ?thesis by blast
qed





section \<open>Evaluation of the series\<close>





section \<open>Errors\<close>

text \<open>
  C8, as the specification has it: for \<open>T \<le> 0\<close> both functions fail with a
  DomainError and not with a division by zero. The script checks nothing: at \<open>T = 0\<close>
  both raise \<open>ZeroDivisionError\<close>, and at \<open>T = - 60\<close> \<open>compute_a0\<close> returns \<open>- 4/3\<close>.
\<close>

theorem nonpositive_period_counterexample:
  "compute_a0 0 SEGMENTS = Inl ZeroDivisionError \<and>
   compute_an_bn 0 SEGMENTS 1 = Inl ZeroDivisionError \<and>
   compute_a0 (- 60) SEGMENTS = Inr (- (4 / 3))"
  by (simp add: compute_a0_zero_period compute_an_bn_zero_period compute_a0_closed
      spec_a0_def SEGMENTS_def)

text \<open>
  C8, amended. The period is not validated. At \<open>T = 0\<close>, \<open>compute_a0\<close> raises
  \<open>ZeroDivisionError\<close>, and so does \<open>compute_an_bn\<close> for every \<open>N \<ge> 1\<close>, with no
  partial result (for \<open>N < 1\<close> it returns two empty lists). At \<open>T < 0\<close> neither
  fails: both return the closed forms.
\<close>

theorem nonpositive_period_behaviour:
  "compute_a0 0 segs = Inl ZeroDivisionError \<and>
   (1 \<le> N \<longrightarrow> compute_an_bn 0 segs N = Inl ZeroDivisionError) \<and>
   (N < 1 \<longrightarrow> compute_an_bn 0 segs N = Inr ([], [])) \<and>
   (T < 0 \<longrightarrow>
      compute_a0 T segs = Inr (spec_a0 T segs) \<and>
      compute_an_bn T segs N = Inr (map (spec_a_n T segs) [1..N], map (spec_b_n T segs) [1..N]))"
  by (simp add: compute_a0_zero_period compute_an_bn_zero_period compute_an_bn_no_harmonics
      compute_a0_closed compute_an_bn_closed)

theorem nonpositive_period_behaviour_witness:
  "((1::int) \<le> 3 \<and> compute_an_bn 0 SEGMENTS 3 = Inl ZeroDivisionError) \<and>
   ((0::int) < 1 \<and> compute_an_bn 0 SEGMENTS 0 = Inr ([], [])) \<and>
   ((- 60 :: real) < 0 \<and>
      compute_a0 (- 60) SEGMENTS = Inr (spec_a0 (- 60) SEGMENTS) \<and>
      compute_an_bn (- 60) SEGMENTS 3 =
        Inr (map (spec_a_n (- 60) SEGMENTS) [1..3], map (spec_b_n (- 60) SEGMENTS) [1..3]))"
  using nonpositive_period_behaviour [of SEGMENTS 3 "- 60"]
    nonpositive_period_behaviour [of SEGMENTS 0 "- 60"]
  by simp

text \<open>
  C9, as the specification has it: for \<open>N < 0\<close> \<open>compute_an_bn\<close> fails with a
  DomainError. The script does not fail: \<open>range(1, N + 1)\<close> is empty, and at
  \<open>N = - 1\<close> it returns two empty lists.
\<close>

theorem negative_order_counterexample:
  "compute_an_bn T_module SEGMENTS (- 1) = Inr ([], []) \<and>
   \<not> isl (compute_an_bn T_module SEGMENTS (- 1))"
  by (simp add: compute_an_bn_def)

text \<open>
  C9, amended. The order is not validated: for every \<open>N < 0\<close>, whatever the period
  and the segments, \<open>compute_an_bn\<close> raises nothing and returns two empty lists.
\<close>

theorem negative_order_returns_empty:
  "N < 0 \<Longrightarrow> compute_an_bn T segs N = Inr ([], [])"
  by (simp add: compute_an_bn_def)

theorem negative_order_returns_empty_witness:
  "(- 7 :: int) < 0 \<and> compute_an_bn 0 [] (- 7) = Inr ([], [])"
proof -
  have h: "(- 7 :: int) < 0" by simp
  from negative_order_returns_empty [OF h, of 0 "[]"] h show ?thesis by blast
qed



end
